theory Spec2Isabelle
  imports Complex_Main "HOL-Library.Word"
begin

unbundle bit_operations_syntax

section \<open>Machine types\<close>

type_synonym u8 = "8 word"
type_synonym u16 = "16 word"
type_synonym u32 = "32 word"
type_synonym i16 = "16 word"

text \<open>
  A C++ \<^verbatim>\<open>float\<close> is modelled as a \<^typ>\<open>real\<close>: every finite single-precision value is a
  real number, and the driver only scales by 16 (a power of two) and converts to and from
  16-bit integers, which single precision does without rounding. NaN and the infinities are
  outside the model.
\<close>

type_synonym float = real

section \<open>II2CController.hpp: the bus interface\<close>

datatype I2CStatus = OK | Error | Nack | Timeout

text \<open>
  The abstract controller is a record of its three virtual operations over the state \<open>'s\<close> of
  the implementing object. A transmit buffer \<^verbatim>\<open>(data, len)\<close> is the list of its \<open>len\<close> bytes (so
  \<^verbatim>\<open>(nullptr, 0)\<close> is the empty list); a receive buffer is passed as its contents before the
  call and returned as its contents after it.
\<close>

record 's II2CController =
  Write :: "u8 \<Rightarrow> u8 list \<Rightarrow> 's \<Rightarrow> I2CStatus \<times> 's"
  Read :: "u8 \<Rightarrow> u8 list \<Rightarrow> 's \<Rightarrow> I2CStatus \<times> u8 list \<times> 's"
  WriteRead :: "u8 \<Rightarrow> u8 list \<Rightarrow> u8 list \<Rightarrow> 's \<Rightarrow> I2CStatus \<times> u8 list \<times> 's"

text \<open>The body that \<^verbatim>\<open>II2CController::WriteRead\<close> has when a subclass does not override it.\<close>

definition WriteRead_default ::
  "(u8 \<Rightarrow> u8 list \<Rightarrow> 's \<Rightarrow> I2CStatus \<times> 's) \<Rightarrow> (u8 \<Rightarrow> u8 list \<Rightarrow> 's \<Rightarrow> I2CStatus \<times> u8 list \<times> 's)
    \<Rightarrow> u8 \<Rightarrow> u8 list \<Rightarrow> u8 list \<Rightarrow> 's \<Rightarrow> I2CStatus \<times> u8 list \<times> 's" where
  "WriteRead_default wr rd addr tx rx s =
     (case wr addr tx s of
        (st, s1) \<Rightarrow> if st \<noteq> OK then (Error, rx, s1) else rd addr rx s1)"

section \<open>EEPROM24FC256.hpp: the storage driver\<close>

definition CAPACITY :: u32 where "CAPACITY = 32768"
definition PAGE_SIZE :: u8 where "PAGE_SIZE = 64"

text \<open>
  \<^verbatim>\<open>static_cast<int16_t>\<close> of a float discards the fraction (truncation toward zero). For a
  value outside the range of \<^verbatim>\<open>int16_t\<close> C++ leaves the conversion undefined; the model keeps
  the low 16 bits there.
\<close>

definition float_to_int16 :: "float \<Rightarrow> i16" where
  "float_to_int16 x = word_of_int (if 0 \<le> x then \<lfloor>x\<rfloor> else \<lceil>x\<rceil>)"

definition EncodeTemperature :: "float \<Rightarrow> i16" where
  "EncodeTemperature temp = float_to_int16 (temp * 16)"

definition DecodeTemperature :: "i16 \<Rightarrow> float" where
  "DecodeTemperature encoded = real_of_int (sint encoded) / 16"

text \<open>
  The polling loop of \<^verbatim>\<open>WaitForWriteComplete\<close>, from attempt number \<open>attempt\<close> on. The inner
  \<^verbatim>\<open>volatile\<close> counting loop only spends time and has no counterpart here.
\<close>

function WaitForWriteComplete_from :: "'s II2CController \<Rightarrow> u8 \<Rightarrow> nat \<Rightarrow> 's \<Rightarrow> 's" where
  "WaitForWriteComplete_from m_i2c m_address attempt s =
     (if attempt < 100 then
        (case Write m_i2c m_address [] s of
           (st, s1) \<Rightarrow> if st = OK then s1
                       else WaitForWriteComplete_from m_i2c m_address (attempt + 1) s1)
      else s)"
  by pat_completeness auto
termination
  by (relation "measure (\<lambda>(m_i2c, m_address, attempt, s). 100 - attempt)") auto

declare WaitForWriteComplete_from.simps [simp del]

definition WaitForWriteComplete :: "'s II2CController \<Rightarrow> u8 \<Rightarrow> 's \<Rightarrow> 's" where
  "WaitForWriteComplete m_i2c m_address s = WaitForWriteComplete_from m_i2c m_address 0 s"

definition LogData_payload :: "u16 \<Rightarrow> i16 \<Rightarrow> u8 list" where
  "LogData_payload memAddr encoded =
     [ word_of_int (drop_bit 8 (uint memAddr) AND 0xFF),
       word_of_int (uint memAddr AND 0xFF),
       word_of_int (drop_bit 8 (sint encoded) AND 0xFF),
       word_of_int (sint encoded AND 0xFF) ]"

definition LogData :: "'s II2CController \<Rightarrow> u8 \<Rightarrow> u16 \<Rightarrow> float \<Rightarrow> 's \<Rightarrow> bool \<times> 's" where
  "LogData m_i2c m_address memAddr temp s =
     (if (ucast memAddr :: u32) + 2 > CAPACITY then (False, s)
      else
        let pageNumber = memAddr div ucast PAGE_SIZE;
            endAddr = memAddr + 2;
            nextPageNumber = endAddr div ucast PAGE_SIZE
        in if pageNumber \<noteq> nextPageNumber \<and> (ucast endAddr :: u32) < CAPACITY then (False, s)
           else
             let encoded = EncodeTemperature temp;
                 payload = LogData_payload memAddr encoded
             in case Write m_i2c m_address payload s of
                  (st, s1) \<Rightarrow>
                    if st \<noteq> OK then (False, s1)
                    else (True, WaitForWriteComplete m_i2c m_address s1))"

definition ReadData :: "'s II2CController \<Rightarrow> u8 \<Rightarrow> u16 \<Rightarrow> 's \<Rightarrow> float \<times> 's" where
  "ReadData m_i2c m_address memAddr s =
     (if (ucast memAddr :: u32) \<ge> CAPACITY - 1 then (- 999, s)
      else
        let addrBytes = [ word_of_int (drop_bit 8 (uint memAddr) AND 0xFF),
                          word_of_int (uint memAddr AND 0xFF) ] :: u8 list
        in case WriteRead m_i2c m_address addrBytes [0, 0] s of
             (status, data, s1) \<Rightarrow>
               if status \<noteq> OK then (- 999, s1)
               else
                 let encoded = (word_of_int (push_bit 8 (uint (data ! 0)) OR uint (data ! 1)) :: i16)
                 in (DecodeTemperature encoded, s1))"

section \<open>TMP100.hpp: the sensor driver\<close>

definition REG_TEMPERATURE :: u8 where "REG_TEMPERATURE = 0x00"
definition REG_CONFIG :: u8 where "REG_CONFIG = 0x01"
definition Bits_12 :: u8 where "Bits_12 = 0x60"

record TMP100 =
  m_configCache :: u8

definition WriteConfig :: "'s II2CController \<Rightarrow> u8 \<Rightarrow> u8 \<Rightarrow> TMP100 \<times> 's \<Rightarrow> bool \<times> TMP100 \<times> 's" where
  "WriteConfig m_i2c m_address v = (\<lambda>(this, s).
     case Write m_i2c m_address [REG_CONFIG, v] s of
       (st, s1) \<Rightarrow> if st = OK then (True, this\<lparr>m_configCache := v\<rparr>, s1) else (False, this, s1))"

definition Init :: "'s II2CController \<Rightarrow> u8 \<Rightarrow> TMP100 \<times> 's \<Rightarrow> bool \<times> TMP100 \<times> 's" where
  "Init m_i2c m_address = WriteConfig m_i2c m_address Bits_12"

text \<open>
  \<^verbatim>\<open>rawTemp >>= 4\<close> shifts a signed 16-bit value arithmetically; multiplying by
  \<^verbatim>\<open>1.0f / 16.0f\<close> is exact.
\<close>

definition ReadTemperature :: "'s II2CController \<Rightarrow> u8 \<Rightarrow> 's \<Rightarrow> float \<times> 's" where
  "ReadTemperature m_i2c m_address s =
     (case WriteRead m_i2c m_address [REG_TEMPERATURE] [0, 0] s of
        (status, rawData, s1) \<Rightarrow>
          if status \<noteq> OK then (- 999, s1)
          else
            let rawTemp = (word_of_int (push_bit 8 (uint (rawData ! 0)) OR uint (rawData ! 1)) :: i16);
                rawTemp = (word_of_int (drop_bit 4 (sint rawTemp)) :: i16)
            in (real_of_int (sint rawTemp) * (1 / 16), s1))"

section \<open>MockEEPROM.hpp, MockI2C.hpp, MockTimer.hpp: the simulated devices\<close>

record MockEEPROM =
  m_memory :: "nat \<Rightarrow> u8"
  m_writeInProgress :: bool
  m_writeCycleCount :: u32
  m_writeAddress :: u16

definition MockEEPROM_new :: MockEEPROM where
  "MockEEPROM_new =
     \<lparr> m_memory = (\<lambda>i. 0xFF), m_writeInProgress = False, m_writeCycleCount = 0,
       m_writeAddress = 0 \<rparr>"

text \<open>The busy branch shared by \<^verbatim>\<open>MockEEPROM::Write\<close> and \<^verbatim>\<open>MockEEPROM::Read\<close>.\<close>

definition write_cycle_tick :: "MockEEPROM \<Rightarrow> MockEEPROM" where
  "write_cycle_tick e =
     (let e1 = e\<lparr>m_writeCycleCount := m_writeCycleCount e + 1\<rparr>
      in if m_writeCycleCount e1 \<ge> 5
         then e1\<lparr>m_writeInProgress := False, m_writeCycleCount := 0\<rparr>
         else e1)"

definition store_bytes :: "(nat \<Rightarrow> u8) \<Rightarrow> nat \<Rightarrow> u8 list \<Rightarrow> nat \<Rightarrow> u8" where
  "store_bytes mem addr bytes =
     foldl (\<lambda>m i. m(addr + i := bytes ! i)) mem [0..<length bytes]"

definition MockEEPROM_Write :: "u8 list \<Rightarrow> MockEEPROM \<Rightarrow> I2CStatus \<times> MockEEPROM" where
  "MockEEPROM_Write data e =
     (if m_writeInProgress e then (Nack, write_cycle_tick e)
      else if length data < 2 then (Nack, e)
      else
        let addr = (word_of_int (push_bit 8 (uint (data ! 0)) OR uint (data ! 1)) :: u16)
        in if length data > 2 then
             (let writeLen = length data - 2
              in if unat addr + writeLen > 32768 then (Nack, e)
                 else (OK, e\<lparr> m_memory := store_bytes (m_memory e) (unat addr) (drop 2 data),
                              m_writeInProgress := True,
                              m_writeCycleCount := 0,
                              m_writeAddress := addr \<rparr>))
           else (OK, e))"

definition MockEEPROM_Read ::
  "u8 list \<Rightarrow> u8 list \<Rightarrow> MockEEPROM \<Rightarrow> I2CStatus \<times> u8 list \<times> MockEEPROM" where
  "MockEEPROM_Read txData rxBuffer e =
     (if m_writeInProgress e then (Nack, rxBuffer, write_cycle_tick e)
      else if length txData < 2 then (Nack, rxBuffer, e)
      else
        let addr = (word_of_int (push_bit 8 (uint (txData ! 0)) OR uint (txData ! 1)) :: u16)
        in if unat addr + length rxBuffer > 32768 then (Nack, rxBuffer, e)
           else (OK, map (\<lambda>i. m_memory e (unat addr + i)) [0..<length rxBuffer], e))"

text \<open>\<^verbatim>\<open>MockI2C\<close> owns one \<^verbatim>\<open>MockEEPROM\<close>, which is all of its state.\<close>

definition MockI2C :: "MockEEPROM II2CController" where
  "MockI2C =
     \<lparr> Write = (\<lambda>addr data e.
         if addr = 0x50 then MockEEPROM_Write data e
         else if addr = 0x48 then (Nack, e)
         else (Nack, e)),
       Read = (\<lambda>addr buffer e.
         if addr = 0x50 then (Nack, buffer, e)
         else if addr = 0x48 then (Nack, replicate (length buffer) 0, e)
         else (Nack, buffer, e)),
       WriteRead = (\<lambda>addr tx rx e.
         if addr = 0x50 then MockEEPROM_Read tx rx e
         else if addr = 0x48 then (Nack, replicate (length rx) 0, e)
         else (Nack, rx, e)) \<rparr>"

record MockTimer =
  m_tickCount :: u32

definition GetElapsedSeconds :: "MockTimer \<Rightarrow> u32" where
  "GetElapsedSeconds t = m_tickCount t"

definition AdvanceTime :: "u32 \<Rightarrow> MockTimer \<Rightarrow> MockTimer" where
  "AdvanceTime seconds t = t\<lparr>m_tickCount := m_tickCount t + seconds\<rparr>"

section \<open>main.cpp: the logging controller\<close>

text \<open>
  The local variables of \<^verbatim>\<open>main\<close>, the objects it owns and the globals it exports to the
  debugger. The two drivers hold only a reference to the bus and their device address
  (\<open>0x48\<close> for the sensor, \<open>0x50\<close> for the EEPROM). The controller is written over any bus
  controller with state \<open>'s\<close>; \<^verbatim>\<open>main\<close> itself uses \<^const>\<open>MockI2C\<close>.
\<close>

record 's main_state =
  g_sampleCount :: u32
  g_lastTemperature :: float
  g_eepromAddress :: u16
  g_initSuccess :: bool
  g_readSuccess :: bool
  g_writeSuccess :: bool
  g_lastEncoded :: i16
  g_status :: string
  i2cBus :: 's
  timer :: MockTimer
  tempSensor :: TMP100
  eepromAddress :: u16
  lastLogTime :: u32

text \<open>The state on reaching \<^verbatim>\<open>"Entering main loop"\<close>, for a bus that starts in state \<open>b0\<close>.\<close>

definition main_start :: "'s II2CController \<Rightarrow> 's \<Rightarrow> 's main_state" where
  "main_start bus b0 =
     (case Init bus 0x48 (\<lparr>m_configCache = 0\<rparr>, b0) of
        (ok, sensor, b1) \<Rightarrow>
          \<lparr> g_sampleCount = 0, g_lastTemperature = 0, g_eepromAddress = 0,
            g_initSuccess = ok, g_readSuccess = False, g_writeSuccess = False,
            g_lastEncoded = 0, g_status = ''Entering main loop'',
            i2cBus = b1, timer = \<lparr>m_tickCount = 0\<rparr>, tempSensor = sensor,
            eepromAddress = 0, lastLogTime = 0 \<rparr>)"

text \<open>
  The body of the \<^verbatim>\<open>if\<close> in the main loop: one log cycle. The substitute temperature
  \<^verbatim>\<open>20.0f + (float)(g_sampleCount * 0.01f)\<close> rounds in single precision; its value is the
  parameter \<open>placeholder\<close>, a function of the sample count, and every result below holds for
  each such function.
\<close>

definition log_cycle ::
  "'s II2CController \<Rightarrow> (u32 \<Rightarrow> float) \<Rightarrow> u32 \<Rightarrow> 's main_state \<Rightarrow> 's main_state" where
  "log_cycle bus placeholder currentTime st =
     (case ReadTemperature bus 0x48 (i2cBus st) of
        (sensed, b1) \<Rightarrow>
          let temperature = (if sensed < - 900 then placeholder (g_sampleCount st) else sensed);
              encoded = float_to_int16 (temperature * 16)
          in case LogData bus 0x50 (eepromAddress st) temperature b1 of
               (written, b2) \<Rightarrow>
                 let next = eepromAddress st + 2;
                     next = (if next \<ge> 32766 then 0 else next)
                 in st\<lparr> g_status := ''Incrementing counter'',
                        g_readSuccess := \<not> sensed < - 900,
                        g_lastTemperature := temperature,
                        g_lastEncoded := encoded,
                        g_writeSuccess := written,
                        i2cBus := b2,
                        eepromAddress := next,
                        g_eepromAddress := next,
                        g_sampleCount := g_sampleCount st + 1,
                        lastLogTime := currentTime,
                        timer := AdvanceTime 600 (timer st) \<rparr>)"

definition main_iteration ::
  "'s II2CController \<Rightarrow> (u32 \<Rightarrow> float) \<Rightarrow> 's main_state \<Rightarrow> 's main_state" where
  "main_iteration bus placeholder st =
     (let currentTime = GetElapsedSeconds (timer st)
      in if currentTime - lastLogTime st \<ge> 600
         then log_cycle bus placeholder currentTime st
         else st)"

text \<open>
  The \<^verbatim>\<open>while (g_sampleCount < 16384)\<close> loop with a bound on the number of iterations:
  \<open>None\<close> when the bound is used up before the loop exits.
\<close>

fun main_loop ::
  "nat \<Rightarrow> 's II2CController \<Rightarrow> (u32 \<Rightarrow> float) \<Rightarrow> 's main_state \<Rightarrow> 's main_state option" where
  "main_loop 0 bus placeholder st = None"
| "main_loop (Suc fuel) bus placeholder st =
     (if g_sampleCount st < 16384
      then main_loop fuel bus placeholder (main_iteration bus placeholder st)
      else Some (st\<lparr>g_status := ''Done''\<rparr>))"

text \<open>
  The controller under a time source that is read once per iteration: the \<open>k\<close>-th iteration
  observes the \<open>k\<close>-th element of \<open>reads\<close> as \<^verbatim>\<open>timer.GetElapsedSeconds()\<close>. The result lists
  the observed times at which a log cycle ran.
\<close>

fun run_with_reads ::
  "'s II2CController \<Rightarrow> (u32 \<Rightarrow> float) \<Rightarrow> u32 list \<Rightarrow> 's main_state \<Rightarrow> u32 list \<times> 's main_state" where
  "run_with_reads bus placeholder [] st = ([], st)"
| "run_with_reads bus placeholder (t # ts) st =
     (let st0 = st\<lparr>timer := \<lparr>m_tickCount = t\<rparr>\<rparr>;
          st1 = main_iteration bus placeholder st0;
          (triggers, st2) = run_with_reads bus placeholder ts st1
      in ((if g_sampleCount st1 \<noteq> g_sampleCount st0 then [t] else []) @ triggers, st2))"

text \<open>
  The controller under a harness that moves the simulated timer itself, as Test 8.2 of
  \<^verbatim>\<open>test_logger.cpp\<close> does: \<^verbatim>\<open>timer.AdvanceTime(seconds)\<close> before each of \<open>n\<close> iterations.
\<close>

fun run_with_ticks ::
  "'s II2CController \<Rightarrow> (u32 \<Rightarrow> float) \<Rightarrow> u32 \<Rightarrow> nat \<Rightarrow> 's main_state \<Rightarrow> u32 list \<times> 's main_state" where
  "run_with_ticks bus placeholder seconds 0 st = ([], st)"
| "run_with_ticks bus placeholder seconds (Suc n) st =
     (let st0 = st\<lparr>timer := AdvanceTime seconds (timer st)\<rparr>;
          st1 = main_iteration bus placeholder st0;
          (triggers, st2) = run_with_ticks bus placeholder seconds n st1
      in ((if g_sampleCount st1 \<noteq> g_sampleCount st0 then [GetElapsedSeconds (timer st0)] else [])
            @ triggers, st2))"

text \<open>
  The states the controller can be in: the start state, any state after the time source has
  moved, and any state after one more loop iteration.
\<close>

inductive reachable :: "'s II2CController \<Rightarrow> (u32 \<Rightarrow> float) \<Rightarrow> 's main_state \<Rightarrow> bool"
  for bus :: "'s II2CController" and placeholder :: "u32 \<Rightarrow> float" where
  reachable_start: "reachable bus placeholder (main_start bus b0)"
| reachable_time: "reachable bus placeholder st \<Longrightarrow> reachable bus placeholder (st\<lparr>timer := t\<rparr>)"
| reachable_iteration:
    "reachable bus placeholder st \<Longrightarrow> reachable bus placeholder (main_iteration bus placeholder st)"

section \<open>test\_logger.cpp, Test 8.2: interval detection\<close>

text \<open>
  The \<^verbatim>\<open>for (minute = 0; minute < 120; minute++)\<close> loop of the test, over the triple
  \<^verbatim>\<open>(timer, lastLogTime, logsTriggered)\<close>, for \<open>n\<close> remaining minutes.
\<close>

fun interval_test_loop :: "nat \<Rightarrow> MockTimer \<times> u32 \<times> u32 \<Rightarrow> MockTimer \<times> u32 \<times> u32" where
  "interval_test_loop 0 x = x"
| "interval_test_loop (Suc n) (tm, lastLog, logsTriggered) =
     (let tm = AdvanceTime 60 tm;
          currentTime = GetElapsedSeconds tm
      in interval_test_loop n
           (if currentTime - lastLog \<ge> 600 then (tm, currentTime, logsTriggered + 1)
            else (tm, lastLog, logsTriggered)))"

section \<open>An observer of bus traffic\<close>

text \<open>
  To speak about which transactions a driver call issues, any controller can be wrapped so
  that it behaves as before and appends every call it receives to a list kept beside its
  state.
\<close>

datatype bus_call = WriteCall u8 "u8 list" | ReadCall u8 nat | WriteReadCall u8 "u8 list" nat

definition recording :: "'s II2CController \<Rightarrow> ('s \<times> bus_call list) II2CController" where
  "recording bus =
     \<lparr> Write = (\<lambda>addr data (s, calls).
         case Write bus addr data s of
           (st, s1) \<Rightarrow> (st, (s1, calls @ [WriteCall addr data]))),
       Read = (\<lambda>addr rx (s, calls).
         case Read bus addr rx s of
           (st, rx1, s1) \<Rightarrow> (st, rx1, (s1, calls @ [ReadCall addr (length rx)]))),
       WriteRead = (\<lambda>addr tx rx (s, calls).
         case WriteRead bus addr tx rx s of
           (st, rx1, s1) \<Rightarrow> (st, rx1, (s1, calls @ [WriteReadCall addr tx (length rx)]))) \<rparr>"

section \<open>Reading aids for the statements\<close>

text \<open>
  Two bytes read as one big-endian two's-complement 16-bit number, written with plain integer
  arithmetic. The driver computes the same number with shifts and a narrowing conversion
  (lemma \<open>sint_be16\<close> below).
\<close>

definition be16_signed :: "u8 \<Rightarrow> u8 \<Rightarrow> int" where
  "be16_signed hi lo =
     (let n = 256 * uint hi + uint lo in if n < 32768 then n else n - 65536)"

text \<open>
  The observed times at which the interval test \<^verbatim>\<open>currentTime - lastLogTime >= 600\<close> fires
  along a list of successive reads of the time source, each firing moving \<open>lastLog\<close> to the
  time just read. It is the projection of \<^const>\<open>run_with_reads\<close> onto the interval clock
  (lemma \<open>run_with_reads_triggers\<close> below).
\<close>

fun trigger_times :: "u32 \<Rightarrow> u32 list \<Rightarrow> u32 list" where
  "trigger_times lastLog [] = []"
| "trigger_times lastLog (t # ts) =
     (if t - lastLog \<ge> 600 then t # trigger_times t ts else trigger_times lastLog ts)"

text \<open>
  The same for \<^const>\<open>run_with_ticks\<close>, over the pair of the timer's count and \<open>lastLog\<close>: a
  firing also adds the 600 seconds of \<^verbatim>\<open>timer.AdvanceTime(600)\<close> to the count.
\<close>

fun ticked_trigger_times :: "u32 \<Rightarrow> nat \<Rightarrow> u32 \<times> u32 \<Rightarrow> u32 list" where
  "ticked_trigger_times seconds 0 (tick, lastLog) = []"
| "ticked_trigger_times seconds (Suc n) (tick, lastLog) =
     (let t = tick + seconds
      in if t - lastLog \<ge> 600 then t # ticked_trigger_times seconds n (t + 600, t)
         else ticked_trigger_times seconds n (t, lastLog))"

section \<open>The default combined transaction\<close>

text \<open>
  Claim C10. For every device address, transmit buffer and receive buffer, the default
  \<^verbatim>\<open>WriteRead\<close> answers \<open>Error\<close> whenever its write phase answers anything but \<open>OK\<close>: the
  write phase's own status (\<open>Nack\<close>, \<open>Timeout\<close>) is dropped, the read phase is not run and
  the receive buffer is left as it was. When the write phase answers \<open>OK\<close> the result is the
  read phase's result, status included, unchanged.
\<close>

theorem WriteRead_default_status:
  "(fst (wr addr tx s) \<noteq> OK \<longrightarrow>
      WriteRead_default wr rd addr tx rx s = (Error, rx, snd (wr addr tx s)))
   \<and> (fst (wr addr tx s) = OK \<longrightarrow>
      WriteRead_default wr rd addr tx rx s = rd addr rx (snd (wr addr tx s)))"
  by (simp add: WriteRead_default_def split: prod.splits)

theorem WriteRead_default_status_witness:
  "WriteRead_default (\<lambda>addr tx s. (Nack, s)) (\<lambda>addr rx s. (OK, rx, s)) 0x50 [0, 0] [0, 0] ()
     = (Error, [0, 0], ())
   \<and> WriteRead_default (\<lambda>addr tx s. (Timeout, s)) (\<lambda>addr rx s. (OK, rx, s)) 0x50 [0, 0] [0, 0] ()
     = (Error, [0, 0], ())
   \<and> WriteRead_default (\<lambda>addr tx s. (OK, s)) (\<lambda>addr rx s. (Nack, rx, s)) 0x50 [0, 0] [0, 0] ()
     = (Nack, [0, 0], ())"
  using WriteRead_default_status [where wr = "\<lambda>addr tx s. (Nack, s)" and addr = "0x50"
      and tx = "[0, 0]" and s = "()" and rd = "\<lambda>addr rx s. (OK, rx, s)" and rx = "[0, 0]"]
    WriteRead_default_status [where wr = "\<lambda>addr tx s. (Timeout, s)" and addr = "0x50"
      and tx = "[0, 0]" and s = "()" and rd = "\<lambda>addr rx s. (OK, rx, s)" and rx = "[0, 0]"]
    WriteRead_default_status [where wr = "\<lambda>addr tx s. (OK, s)" and addr = "0x50"
      and tx = "[0, 0]" and s = "()" and rd = "\<lambda>addr rx s. (Nack, rx, s)" and rx = "[0, 0]"]
  by simp

section \<open>The fixed-point codec\<close>

lemma trunc_bound:
  fixes x :: real
  shows "\<bar>real_of_int (if 0 \<le> x then \<lfloor>x\<rfloor> else \<lceil>x\<rceil>) - x\<bar> < 1"
  by (auto; linarith)

lemma trunc_range:
  fixes v :: real
  assumes "- 55 \<le> v" "v \<le> 125"
  shows "- 880 \<le> (if 0 \<le> v * 16 then \<lfloor>v * 16\<rfloor> else \<lceil>v * 16\<rceil>)"
    and "(if 0 \<le> v * 16 then \<lfloor>v * 16\<rfloor> else \<lceil>v * 16\<rceil>) \<le> 2000"
  using assms by (auto simp: le_floor_iff floor_le_iff le_ceiling_iff ceiling_le_iff; linarith)+

lemma sint_word_of_int_i16:
  "- 32768 \<le> i \<Longrightarrow> i \<le> 32767 \<Longrightarrow> sint (word_of_int i :: i16) = i"
  by (simp add: sint_sbintrunc' signed_take_bit_int_eq_self)

lemma EncodeTemperature_in_range:
  fixes v :: real
  assumes "- 55 \<le> v" "v \<le> 125"
  shows "sint (EncodeTemperature v) = (if 0 \<le> v * 16 then \<lfloor>v * 16\<rfloor> else \<lceil>v * 16\<rceil>)"
proof -
  let ?t = "if 0 \<le> v * 16 then \<lfloor>v * 16\<rfloor> else \<lceil>v * 16\<rceil>"
  have "- 880 \<le> ?t" "?t \<le> 2000"
    using trunc_range [OF assms] by simp_all
  then have "sint (word_of_int ?t :: i16) = ?t"
    by (intro sint_word_of_int_i16) linarith+
  then show ?thesis
    by (simp add: EncodeTemperature_def float_to_int16_def)
qed

text \<open>
  Claim C7. For every value \<open>v\<close> of the sensor's range \<open>-55 \<dots> 125\<close>, the encoded sample is
  \<open>v * 16\<close> with its fraction cut off toward zero (the floor for \<open>v \<ge> 0\<close>, the ceiling for
  \<open>v < 0\<close>; not the nearest integer), decoding divides the sample by 16 over the reals, and
  the decoded value differs from \<open>v\<close> by less than \<open>1/16\<close>.
\<close>

theorem codec_round_trip:
  fixes v :: real
  assumes "- 55 \<le> v" "v \<le> 125"
  shows "sint (EncodeTemperature v) = (if 0 \<le> v then \<lfloor>v * 16\<rfloor> else \<lceil>v * 16\<rceil>)
       \<and> DecodeTemperature (EncodeTemperature v) = real_of_int (sint (EncodeTemperature v)) / 16
       \<and> \<bar>DecodeTemperature (EncodeTemperature v) - v\<bar> < 1 / 16"
proof -
  let ?t = "if 0 \<le> v * 16 then \<lfloor>v * 16\<rfloor> else \<lceil>v * 16\<rceil>"
  have enc: "sint (EncodeTemperature v) = ?t"
    by (rule EncodeTemperature_in_range [OF assms])
  have "\<bar>real_of_int ?t - v * 16\<bar> < 1"
    by (rule trunc_bound)
  then have "\<bar>real_of_int ?t / 16 - v\<bar> < 1 / 16"
    by (simp add: field_simps abs_if split: if_splits)
  with enc show ?thesis
    by (simp add: DecodeTemperature_def zero_le_mult_iff)
qed

text \<open>
  At \<open>v = -15/256\<close> the scaled value is \<open>-15/16\<close>: truncation gives 0, where both the floor
  and the nearest integer would give \<open>-1\<close>.
\<close>

theorem codec_round_trip_witness:
  "- 55 \<le> (- 15 / 256 :: real) \<and> (- 15 / 256 :: real) \<le> 125
   \<and> sint (EncodeTemperature (- 15 / 256)) = 0
   \<and> DecodeTemperature (EncodeTemperature (- 15 / 256)) = 0
   \<and> \<bar>DecodeTemperature (EncodeTemperature (- 15 / 256)) - (- 15 / 256)\<bar> < 1 / 16"
  using codec_round_trip [of "- 15 / 256"]
  by (simp add: EncodeTemperature_def float_to_int16_def DecodeTemperature_def)

section \<open>Validation and transmission in LogData\<close>

lemma unat_ucast_u16_u32: "unat (ucast (a :: u16) :: u32) = unat a"
  using unsigned_less [of a, where 'a = nat]
  by (simp add: unsigned_ucast_eq take_bit_nat_eq_self)

lemma capacity_check:
  "((ucast (memAddr :: u16) :: u32) + 2 > CAPACITY) = (unat memAddr + 2 > 32768)"
proof -
  have "unat memAddr < 65536"
    using unsigned_less [of memAddr, where 'a = nat] by simp
  then have "unat ((ucast memAddr :: u32) + 2) = unat memAddr + 2"
    by (simp add: unat_word_ariths unat_ucast_u16_u32)
  then show ?thesis
    by (simp add: CAPACITY_def word_less_nat_alt)
qed

lemma page_check:
  assumes "unat (memAddr :: u16) + 2 \<le> 32768"
  shows "(memAddr div ucast PAGE_SIZE \<noteq> (memAddr + 2) div ucast PAGE_SIZE
          \<and> (ucast (memAddr + 2) :: u32) < CAPACITY)
         = (unat memAddr div 64 \<noteq> (unat memAddr + 2) div 64 \<and> unat memAddr + 2 < 32768)"
proof -
  have e: "unat (memAddr + 2) = unat memAddr + 2"
    using assms by (simp add: unat_word_ariths)
  have d1: "unat (memAddr div 64) = unat memAddr div 64"
    by (simp add: unat_div)
  have d2: "unat ((memAddr + 2) div 64) = (unat memAddr + 2) div 64"
    by (simp add: unat_div e)
  have "(memAddr div 64 = (memAddr + 2) div 64) = (unat memAddr div 64 = (unat memAddr + 2) div 64)"
    using d1 d2 by (simp add: word_unat_eq_iff)
  moreover have "((ucast (memAddr + 2) :: u32) < CAPACITY) = (unat memAddr + 2 < 32768)"
    by (simp add: CAPACITY_def word_less_nat_alt unat_ucast_u16_u32 e)
  ultimately show ?thesis
    by (simp add: PAGE_SIZE_def)
qed

lemma LogData_unfold:
  "LogData m_i2c m_address memAddr temp s =
     (if unat memAddr + 2 > 32768 then (False, s)
      else if unat memAddr div 64 \<noteq> (unat memAddr + 2) div 64 \<and> unat memAddr + 2 < 32768
      then (False, s)
      else case Write m_i2c m_address (LogData_payload memAddr (EncodeTemperature temp)) s of
             (st, s1) \<Rightarrow> if st \<noteq> OK then (False, s1)
                        else (True, WaitForWriteComplete m_i2c m_address s1))"
proof (cases "unat memAddr + 2 > 32768")
  case True
  then show ?thesis
    by (simp add: LogData_def capacity_check)
next
  case False
  then have le: "unat memAddr + 2 \<le> 32768" by simp
  show ?thesis
    using False page_check [OF le]
    by (simp add: LogData_def capacity_check Let_def)
qed

lemma Write_recording:
  "Write (recording bus) addr data (s, calls) =
     (fst (Write bus addr data s), (snd (Write bus addr data s), calls @ [WriteCall addr data]))"
  by (simp add: recording_def split: prod.splits)

lemma WaitForWriteComplete_from_recording:
  "\<exists>k. k \<le> 100 - attempt \<and>
     WaitForWriteComplete_from (recording bus) dev attempt (s, calls) =
       (WaitForWriteComplete_from bus dev attempt s, calls @ replicate k (WriteCall dev []))"
proof (induction bus dev attempt s arbitrary: calls rule: WaitForWriteComplete_from.induct)
  case (1 m_i2c m_address attempt s)
  show ?case
  proof (cases "attempt < 100")
    case False
    then show ?thesis
      by (simp add: WaitForWriteComplete_from.simps)
  next
    case True
    obtain st s1 where w: "Write m_i2c m_address [] s = (st, s1)"
      by (cases "Write m_i2c m_address [] s")
    show ?thesis
    proof (cases "st = OK")
      case True
      have "WaitForWriteComplete_from (recording m_i2c) m_address attempt (s, calls) =
              (WaitForWriteComplete_from m_i2c m_address attempt s,
               calls @ replicate 1 (WriteCall m_address []))"
        using \<open>attempt < 100\<close> w True
        by (simp add: WaitForWriteComplete_from.simps [of _ _ attempt] Write_recording)
      moreover have "(1::nat) \<le> 100 - attempt"
        using \<open>attempt < 100\<close> by simp
      ultimately show ?thesis by blast
    next
      case False
      from "1.IH" [OF \<open>attempt < 100\<close> w [symmetric] False, of "calls @ [WriteCall m_address []]"]
      obtain k where k: "k \<le> 100 - (attempt + 1)"
        and r: "WaitForWriteComplete_from (recording m_i2c) m_address (attempt + 1)
                  (s1, calls @ [WriteCall m_address []]) =
                (WaitForWriteComplete_from m_i2c m_address (attempt + 1) s1,
                 (calls @ [WriteCall m_address []]) @ replicate k (WriteCall m_address []))"
        by blast
      have "WaitForWriteComplete_from (recording m_i2c) m_address attempt (s, calls) =
              (WaitForWriteComplete_from m_i2c m_address attempt s,
               calls @ replicate (Suc k) (WriteCall m_address []))"
        using \<open>attempt < 100\<close> w False r
        by (simp add: WaitForWriteComplete_from.simps [of _ _ attempt] Write_recording)
      moreover have "Suc k \<le> 100 - attempt"
        using k \<open>attempt < 100\<close> by simp
      ultimately show ?thesis by blast
    qed
  qed
qed

lemma WaitForWriteComplete_from_exhausted:
  assumes "\<And>s'. fst (Write bus dev [] s') \<noteq> OK"
  shows "snd (WaitForWriteComplete_from (recording bus) dev attempt (s, calls)) =
           calls @ replicate (100 - attempt) (WriteCall dev [])"
proof (induction "100 - attempt" arbitrary: attempt s calls)
  case 0
  then show ?case
    by (simp add: WaitForWriteComplete_from.simps)
next
  case (Suc n)
  then have lt: "attempt < 100" and n: "n = 100 - (attempt + 1)"
    by simp_all
  have ne: "fst (Write bus dev [] s) \<noteq> OK"
    by (rule assms)
  have "snd (WaitForWriteComplete_from (recording bus) dev attempt (s, calls)) =
          snd (WaitForWriteComplete_from (recording bus) dev (attempt + 1)
                 (snd (Write bus dev [] s), calls @ [WriteCall dev []]))"
    using lt ne
    by (simp add: WaitForWriteComplete_from.simps [of _ _ attempt] Write_recording)
  also have "\<dots> = (calls @ [WriteCall dev []]) @ replicate (100 - (attempt + 1)) (WriteCall dev [])"
    by (rule Suc.hyps(1) [OF n])
  also have "\<dots> = calls @ replicate (100 - attempt) (WriteCall dev [])"
    using lt by (simp add: replicate_Suc [symmetric] Suc_diff_Suc del: replicate_Suc)
  finally show ?case .
qed

lemma and_255_int: "(k :: int) AND 255 = take_bit 8 k"
proof -
  have "(255 :: int) = mask 8"
    by (simp add: mask_eq_exp_minus_1)
  then show ?thesis
    by (simp add: take_bit_eq_mask)
qed

lemma LogData_payload_bytes:
  "LogData_payload memAddr encoded =
     [ucast (drop_bit 8 memAddr), ucast memAddr, ucast (drop_bit 8 encoded), ucast encoded]"
proof -
  have 1: "(word_of_int (take_bit 8 (drop_bit 8 (uint memAddr))) :: u8) = ucast (drop_bit 8 memAddr)"
    by (rule bit_word_eqI) (auto simp: bit_simps)
  have 2: "(word_of_int (take_bit 8 (uint memAddr)) :: u8) = ucast memAddr"
    by (rule bit_word_eqI) (auto simp: bit_simps)
  have 3: "(word_of_int (take_bit 8 (drop_bit 8 (sint encoded))) :: u8) = ucast (drop_bit 8 encoded)"
    by (rule bit_word_eqI) (auto simp: bit_simps)
  have 4: "(word_of_int (take_bit 8 (sint encoded)) :: u8) = ucast encoded"
    by (rule bit_word_eqI) (auto simp: bit_simps)
  show ?thesis
    by (simp only: LogData_payload_def and_255_int 1 2 3 4)
qed

lemma LogData_recording:
  "LogData (recording bus) dev memAddr temp (s, calls) =
     (if unat memAddr + 2 > 32768 then (False, (s, calls))
      else if unat memAddr div 64 \<noteq> (unat memAddr + 2) div 64 \<and> unat memAddr + 2 < 32768
      then (False, (s, calls))
      else if fst (Write bus dev (LogData_payload memAddr (EncodeTemperature temp)) s) \<noteq> OK
      then (False, (snd (Write bus dev (LogData_payload memAddr (EncodeTemperature temp)) s),
                    calls @ [WriteCall dev (LogData_payload memAddr (EncodeTemperature temp))]))
      else (True, WaitForWriteComplete_from (recording bus) dev 0
                    (snd (Write bus dev (LogData_payload memAddr (EncodeTemperature temp)) s),
                     calls @ [WriteCall dev (LogData_payload memAddr (EncodeTemperature temp))])))"
  by (simp add: LogData_unfold Write_recording WaitForWriteComplete_def)

lemma LogData_result:
  "fst (LogData bus dev memAddr temp s) =
     (unat memAddr + 2 \<le> 32768
      \<and> \<not> (unat memAddr div 64 \<noteq> (unat memAddr + 2) div 64 \<and> unat memAddr + 2 < 32768)
      \<and> fst (Write bus dev (LogData_payload memAddr (EncodeTemperature temp)) s) = OK)"
  by (auto simp: LogData_unfold split: prod.splits)

text \<open>
  Claim C1. For every address that passes both validation checks and every value: when the
  4-byte data write answers \<open>OK\<close>, \<^const>\<open>LogData\<close> reports success whatever the
  completion poll does afterwards. In particular, on a bus whose zero-length probe never
  answers \<open>OK\<close>, the call still reports success after the data write and exactly 100 probes.
\<close>

theorem LogData_success_despite_poll:
  assumes "unat memAddr + 2 \<le> 32768"
    and "\<not> (unat memAddr div 64 \<noteq> (unat memAddr + 2) div 64 \<and> unat memAddr + 2 < 32768)"
    and "fst (Write bus dev (LogData_payload memAddr (EncodeTemperature temp)) s) = OK"
  shows "fst (LogData bus dev memAddr temp s)
     \<and> ((\<forall>s'. fst (Write bus dev [] s') \<noteq> OK) \<longrightarrow>
          fst (LogData (recording bus) dev memAddr temp (s, []))
          \<and> snd (snd (LogData (recording bus) dev memAddr temp (s, []))) =
              WriteCall dev (LogData_payload memAddr (EncodeTemperature temp))
                # replicate 100 (WriteCall dev []))"
proof -
  have 1: "fst (LogData bus dev memAddr temp s)"
    using assms by (simp add: LogData_result)
  have 2: "snd (snd (LogData (recording bus) dev memAddr temp (s, []))) =
              WriteCall dev (LogData_payload memAddr (EncodeTemperature temp))
                # replicate 100 (WriteCall dev [])"
    if "\<forall>s'. fst (Write bus dev [] s') \<noteq> OK"
  proof -
    have "\<And>s'. fst (Write bus dev [] s') \<noteq> OK"
      using that by blast
    from WaitForWriteComplete_from_exhausted [of bus dev, OF this, of 0]
    show ?thesis
      using assms by (simp add: LogData_recording)
  qed
  have 3: "fst (LogData (recording bus) dev memAddr temp (s, []))"
    using assms by (simp add: LogData_recording)
  from 1 2 3 show ?thesis by blast
qed

text \<open>
  Claim C2. \<^const>\<open>LogData\<close> fails for every address with \<open>address + 2 > 32768\<close>, and then the
  bus state and the list of recorded bus calls are returned untouched: no transaction is
  issued. Address 32767 is rejected for every value; address 32766 passes the check and the
  call succeeds when the data write answers \<open>OK\<close>.
\<close>

theorem LogData_capacity_check:
  "(32768 < unat memAddr + 2 \<longrightarrow>
      LogData (recording bus) dev memAddr temp (s, calls) = (False, (s, calls)))
   \<and> LogData (recording bus) dev 32767 temp (s, calls) = (False, (s, calls))
   \<and> (fst (Write bus dev (LogData_payload 32766 (EncodeTemperature temp)) s) = OK \<longrightarrow>
        fst (LogData bus dev 32766 temp s))"
  by (simp add: LogData_recording LogData_result)

text \<open>
  Claim C3. For an address that passes the capacity check, \<^const>\<open>LogData\<close> returns failure
  without any bus transaction exactly when the page of \<open>address\<close> differs from the page of
  \<open>address + 2\<close> and \<open>address + 2 < 32768\<close>. (The second page is that of the address one past
  the sample, as in the code: offsets 62 and 63 of a page both count as crossing.) Address 62
  is rejected for every value; address 32766 is not rejected, a transaction is issued.
\<close>

theorem LogData_page_check:
  assumes "unat memAddr + 2 \<le> 32768"
  shows "(LogData (recording bus) dev memAddr temp (s, []) = (False, (s, [])))
           = (unat memAddr div 64 \<noteq> (unat memAddr + 2) div 64 \<and> unat memAddr + 2 < 32768)
       \<and> LogData (recording bus) dev 62 temp (s, []) = (False, (s, []))
       \<and> snd (snd (LogData (recording bus) dev 32766 temp (s, []))) \<noteq> []"
proof -
  obtain k where "WaitForWriteComplete_from (recording bus) dev 0
       (snd (Write bus dev (LogData_payload 32766 (EncodeTemperature temp)) s),
        [WriteCall dev (LogData_payload 32766 (EncodeTemperature temp))]) =
     (WaitForWriteComplete_from bus dev 0
        (snd (Write bus dev (LogData_payload 32766 (EncodeTemperature temp)) s)),
      [WriteCall dev (LogData_payload 32766 (EncodeTemperature temp))] @ replicate k (WriteCall dev []))"
    using WaitForWriteComplete_from_recording [where attempt = 0 and bus = bus and dev = dev
        and s = "snd (Write bus dev (LogData_payload 32766 (EncodeTemperature temp)) s)"
        and calls = "[WriteCall dev (LogData_payload 32766 (EncodeTemperature temp))]"]
    by auto
  then have 3: "snd (snd (LogData (recording bus) dev 32766 temp (s, []))) \<noteq> []"
    by (simp add: LogData_recording)
  have 2: "LogData (recording bus) dev 62 temp (s, []) = (False, (s, []))"
    by (simp add: LogData_recording)
  have 1: "(LogData (recording bus) dev memAddr temp (s, []) = (False, (s, [])))
           = (unat memAddr div 64 \<noteq> (unat memAddr + 2) div 64 \<and> unat memAddr + 2 < 32768)"
    using assms by (simp add: LogData_recording)
  from 1 2 3 show ?thesis by blast
qed

text \<open>
  Claim C8. For every call that passes validation, the bus traffic is one write to the device
  address of the four bytes address-high, address-low, sample-high, sample-low, followed only
  by zero-length probes to the same address (at most 100, none when the data write failed).
\<close>

theorem LogData_transmits_payload:
  assumes "unat memAddr + 2 \<le> 32768"
    and "\<not> (unat memAddr div 64 \<noteq> (unat memAddr + 2) div 64 \<and> unat memAddr + 2 < 32768)"
  shows "\<exists>k\<le>100. snd (snd (LogData (recording bus) dev memAddr temp (s, []))) =
           WriteCall dev [ucast (drop_bit 8 memAddr), ucast memAddr,
             ucast (drop_bit 8 (EncodeTemperature temp)), ucast (EncodeTemperature temp)]
           # replicate k (WriteCall dev [])"
proof (cases "fst (Write bus dev (LogData_payload memAddr (EncodeTemperature temp)) s) = OK")
  case False
  then have "snd (snd (LogData (recording bus) dev memAddr temp (s, []))) =
      WriteCall dev (LogData_payload memAddr (EncodeTemperature temp)) # replicate 0 (WriteCall dev [])"
    using assms by (simp add: LogData_recording)
  then show ?thesis
    unfolding LogData_payload_bytes by blast
next
  case True
  obtain k where k: "k \<le> 100 - 0"
    and "WaitForWriteComplete_from (recording bus) dev 0
       (snd (Write bus dev (LogData_payload memAddr (EncodeTemperature temp)) s),
        [WriteCall dev (LogData_payload memAddr (EncodeTemperature temp))]) =
     (WaitForWriteComplete_from bus dev 0
        (snd (Write bus dev (LogData_payload memAddr (EncodeTemperature temp)) s)),
      [WriteCall dev (LogData_payload memAddr (EncodeTemperature temp))] @ replicate k (WriteCall dev []))"
    using WaitForWriteComplete_from_recording [where attempt = 0 and bus = bus and dev = dev
        and s = "snd (Write bus dev (LogData_payload memAddr (EncodeTemperature temp)) s)"
        and calls = "[WriteCall dev (LogData_payload memAddr (EncodeTemperature temp))]"]
    by auto
  then have "snd (snd (LogData (recording bus) dev memAddr temp (s, []))) =
      WriteCall dev (LogData_payload memAddr (EncodeTemperature temp)) # replicate k (WriteCall dev [])"
    using assms True by (simp add: LogData_recording)
  with k show ?thesis
    unfolding LogData_payload_bytes by auto
qed

section \<open>ReadData and its sentinel\<close>

lemma be16_int: "push_bit 8 (uint (d0 :: u8)) OR uint (d1 :: u8) = 256 * uint d0 + uint d1"
proof -
  have "take_bit 8 (uint d1) = uint d1"
    using uint_bounded [of d1] by (simp add: take_bit_int_eq_self)
  then have "push_bit 8 (uint d0) OR uint d1 = concat_bit 8 (uint d1) (uint d0)"
    by (simp add: concat_bit_def or.commute)
  also have "\<dots> = take_bit 8 (uint d1) + push_bit 8 (uint d0)"
    by (rule concat_bit_eq)
  finally show ?thesis
    using \<open>take_bit 8 (uint d1) = uint d1\<close> by (simp add: push_bit_eq_mult)
qed

lemma sint_i16_of_int:
  assumes "0 \<le> n" "n < 65536"
  shows "sint (word_of_int n :: i16) = (if n < 32768 then n else n - 65536)"
proof (cases "n < 32768")
  case True
  with assms show ?thesis
    by (simp add: int_word_sint)
next
  case False
  with assms have "(n + 32768) mod 65536 = n - 32768"
    by (simp add: mod_pos_geq)
  with False show ?thesis
    by (simp add: int_word_sint)
qed

lemma ReadData_bound_check:
  "((ucast (memAddr :: u16) :: u32) \<ge> CAPACITY - 1) = (32767 \<le> unat memAddr)"
  by (simp add: CAPACITY_def word_le_nat_alt unat_ucast_u16_u32)

lemma addrBytes_eq:
  "[word_of_int (drop_bit 8 (uint memAddr) AND 0xFF), word_of_int (uint memAddr AND 0xFF)] =
     ([ucast (drop_bit 8 memAddr), ucast memAddr] :: u8 list)"
  for memAddr :: u16
  using LogData_payload_bytes [of memAddr 0] by (simp add: LogData_payload_def)

lemma sint_be16:
  "sint (word_of_int (push_bit 8 (uint d0) OR uint d1) :: i16) = be16_signed d0 d1"
  for d0 d1 :: u8
proof -
  have "0 \<le> uint d0" "uint d0 < 256" "0 \<le> uint d1" "uint d1 < 256"
    using uint_bounded [of d0] uint_bounded [of d1] by simp_all
  then have "0 \<le> 256 * uint d0 + uint d1" "256 * uint d0 + uint d1 < 65536"
    by linarith+
  then have "sint (word_of_int (256 * uint d0 + uint d1) :: i16) =
      (if 256 * uint d0 + uint d1 < 32768 then 256 * uint d0 + uint d1
       else 256 * uint d0 + uint d1 - 65536)"
    by (rule sint_i16_of_int)
  then show ?thesis
    unfolding be16_int be16_signed_def Let_def .
qed

lemma ReadData_unfold:
  "ReadData bus dev memAddr s =
     (if 32767 \<le> unat memAddr then (- 999, s)
      else case WriteRead bus dev [ucast (drop_bit 8 memAddr), ucast memAddr] [0, 0] s of
             (status, data, s1) \<Rightarrow>
               if status \<noteq> OK then (- 999, s1)
               else (real_of_int (be16_signed (data ! 0) (data ! 1)) / 16, s1))"
  unfolding ReadData_def ReadData_bound_check addrBytes_eq Let_def DecodeTemperature_def sint_be16
  by (rule refl)

text \<open>
  Claim C6. \<^const>\<open>ReadData\<close> returns the sentinel \<open>-999\<close> for every address \<open>\<ge> 32767\<close>,
  issuing no bus transaction (bus state and recorded calls come back untouched), in
  particular for address 32767; it returns the sentinel whenever the combined transaction
  answers anything but \<open>OK\<close>; and otherwise it returns the two received bytes, read as a
  big-endian signed 16-bit number, divided by 16.
\<close>

theorem ReadData_sentinel:
  "(32767 \<le> unat memAddr \<longrightarrow>
      ReadData (recording bus) dev memAddr (s, calls) = (- 999, (s, calls)))
   \<and> ReadData (recording bus) dev 32767 (s, calls) = (- 999, (s, calls))
   \<and> (unat memAddr < 32767
        \<and> fst (WriteRead bus dev [ucast (drop_bit 8 memAddr), ucast memAddr] [0, 0] s) \<noteq> OK \<longrightarrow>
        fst (ReadData bus dev memAddr s) = - 999)
   \<and> (unat memAddr < 32767
        \<and> WriteRead bus dev [ucast (drop_bit 8 memAddr), ucast memAddr] [0, 0] s = (OK, [d0, d1], s1) \<longrightarrow>
        ReadData bus dev memAddr s = (real_of_int (be16_signed d0 d1) / 16, s1))"
  by (simp add: ReadData_unfold split: prod.splits)

text \<open>
  Claim C9. The device response \<open>0xC1, 0x90\<close> is the 16-bit number \<open>-15984\<close>, and a read at an
  in-bounds address whose transaction answers \<open>OK\<close> with these two bytes returns exactly the
  sentinel \<open>-999\<close>: the value returned for a bounds or transport failure.
\<close>

theorem ReadData_stored_sentinel:
  assumes "unat memAddr < 32767"
    and "WriteRead bus dev [ucast (drop_bit 8 memAddr), ucast memAddr] [0, 0] s = (OK, [0xC1, 0x90], s1)"
  shows "be16_signed 0xC1 0x90 = - 15984 \<and> ReadData bus dev memAddr s = (- 999, s1)"
  using assms by (simp add: ReadData_unfold be16_signed_def)

section \<open>The controller: interval clock and circular cursor\<close>

lemma log_cycle_fields:
  "g_sampleCount (log_cycle bus ph t st) = g_sampleCount st + 1"
  "lastLogTime (log_cycle bus ph t st) = t"
  "eepromAddress (log_cycle bus ph t st) =
     (if eepromAddress st + 2 \<ge> 32766 then 0 else eepromAddress st + 2)"
  "timer (log_cycle bus ph t st) = AdvanceTime 600 (timer st)"
  by (simp_all add: log_cycle_def Let_def split: prod.splits)

lemma main_iteration_fields:
  "g_sampleCount (main_iteration bus ph st) =
     (if GetElapsedSeconds (timer st) - lastLogTime st \<ge> 600 then g_sampleCount st + 1
      else g_sampleCount st)"
  "lastLogTime (main_iteration bus ph st) =
     (if GetElapsedSeconds (timer st) - lastLogTime st \<ge> 600 then GetElapsedSeconds (timer st)
      else lastLogTime st)"
  "eepromAddress (main_iteration bus ph st) =
     (if GetElapsedSeconds (timer st) - lastLogTime st \<ge> 600
      then (if eepromAddress st + 2 \<ge> 32766 then 0 else eepromAddress st + 2)
      else eepromAddress st)"
  by (simp_all add: main_iteration_def Let_def log_cycle_fields)

lemma run_with_reads_triggers:
  "fst (run_with_reads bus ph ts st) = trigger_times (lastLogTime st) ts"
proof (induction ts arbitrary: st)
  case Nil
  show ?case by simp
next
  case (Cons t ts)
  let ?st0 = "st\<lparr>timer := \<lparr>m_tickCount = t\<rparr>\<rparr>"
  let ?st1 = "main_iteration bus ph ?st0"
  have l: "lastLogTime ?st1 = (if t - lastLogTime st \<ge> 600 then t else lastLogTime st)"
    by (simp add: main_iteration_fields GetElapsedSeconds_def)
  have c: "(g_sampleCount ?st1 \<noteq> g_sampleCount ?st0) = (t - lastLogTime st \<ge> 600)"
    by (simp add: main_iteration_fields GetElapsedSeconds_def)
  have "fst (run_with_reads bus ph (t # ts) st) =
      (if g_sampleCount ?st1 \<noteq> g_sampleCount ?st0 then [t] else [])
        @ fst (run_with_reads bus ph ts ?st1)"
    by (simp add: Let_def split: prod.splits)
  also have "\<dots> = (if t - lastLogTime st \<ge> 600 then [t] else [])
        @ trigger_times (lastLogTime ?st1) ts"
    unfolding c Cons.IH ..
  also have "\<dots> = trigger_times (lastLogTime st) (t # ts)"
    unfolding l by simp
  finally show ?case .
qed

lemma reads_eval: "trigger_times 0 (map (\<lambda>k. 60 * of_nat k) [0..<121]) = map (\<lambda>k. 600 * of_nat k) [1..<13]"
  by code_simp

lemma test_loop_eval: "interval_test_loop 120 (\<lparr>m_tickCount = 0\<rparr>, 0, 0) = (\<lparr>m_tickCount = 7200\<rparr>, 7200, 12)"
  by code_simp

lemma cursor_step:
  fixes a :: u16
  assumes "even (unat a)" "unat a \<le> 32764"
  shows "unat (a + 2) = unat a + 2"
    and "(a + 2 \<ge> 32766) = (unat a + 2 = 32766)"
    and "even (unat (if a + 2 \<ge> 32766 then 0 else a + 2))"
    and "unat (if a + 2 \<ge> 32766 then 0 else a + 2) \<le> 32764"
proof -
  show e: "unat (a + 2) = unat a + 2"
    using assms by (simp add: unat_word_ariths)
  have le: "unat a + 2 \<le> 32766"
    using assms by simp
  show g: "(a + 2 \<ge> 32766) = (unat a + 2 = 32766)"
    using le by (auto simp: word_le_nat_alt e)
  show "even (unat (if a + 2 \<ge> 32766 then 0 else a + 2))"
    using assms by (simp add: e)
  have "unat a + 2 \<noteq> 32765"
    using assms(1) by presburger
  then show "unat (if a + 2 \<ge> 32766 then 0 else a + 2) \<le> 32764"
    using le by (simp add: g e)
qed

lemma main_start_fields:
  "eepromAddress (main_start bus b0) = 0"
  "lastLogTime (main_start bus b0) = 0"
  "timer (main_start bus b0) = \<lparr>m_tickCount = 0\<rparr>"
  "g_sampleCount (main_start bus b0) = 0"
  by (simp_all add: main_start_def split: prod.splits)

lemma reachable_cursor:
  "reachable bus ph st \<Longrightarrow> even (unat (eepromAddress st)) \<and> unat (eepromAddress st) \<le> 32764"
proof (induction rule: reachable.induct)
  case (reachable_start b0)
  show ?case by (simp add: main_start_fields)
next
  case (reachable_time st t)
  then show ?case by simp
next
  case (reachable_iteration st)
  then show ?case
    using cursor_step(3,4) [of "eepromAddress st"]
    by (simp add: main_iteration_fields)
qed

text \<open>
  Claim C4. In every reachable state of the controller the cursor is even and at most 32764;
  and an iteration that triggers a log cycle moves the cursor to \<open>cursor + 2\<close>, or to 0 when
  \<open>cursor + 2\<close> is 32766, for every bus: whatever \<^const>\<open>LogData\<close> reported.
\<close>

theorem cursor_invariant:
  assumes "reachable bus placeholder st"
  shows "even (unat (eepromAddress st)) \<and> unat (eepromAddress st) \<le> 32764
     \<and> (GetElapsedSeconds (timer st) - lastLogTime st \<ge> 600 \<longrightarrow>
          unat (eepromAddress (main_iteration bus placeholder st)) =
            (if unat (eepromAddress st) + 2 = 32766 then 0 else unat (eepromAddress st) + 2))"
proof -
  have inv: "even (unat (eepromAddress st))" "unat (eepromAddress st) \<le> 32764"
    using reachable_cursor [OF assms] by simp_all
  show ?thesis
    using inv cursor_step(1,2) [OF inv]
    by (simp add: main_iteration_fields)
qed

text \<open>
  Claim C5. An iteration runs a log cycle exactly when
  \<^verbatim>\<open>currentTime - lastLogTime >= 600\<close> (unsigned 32-bit subtraction), and otherwise leaves the
  state alone; after a log cycle \<open>lastLogTime\<close> is the time that was read. From
  \<open>lastLogTime = 0\<close>, under a time source whose successive reads are \<open>0, 60, 120, \<dots>, 7200\<close>,
  the log cycles run at exactly the twelve times \<open>600, 1200, \<dots>, 7200\<close>. The repository's own
  interval test (Test 8.2: 120 steps of 60 seconds) counts 12 triggers.
\<close>

theorem interval_trigger:
  "(g_sampleCount (main_iteration bus placeholder st) \<noteq> g_sampleCount st)
      = (GetElapsedSeconds (timer st) - lastLogTime st \<ge> 600)
   \<and> (\<not> GetElapsedSeconds (timer st) - lastLogTime st \<ge> 600 \<longrightarrow>
        main_iteration bus placeholder st = st)
   \<and> lastLogTime (main_iteration bus placeholder st) =
        (if GetElapsedSeconds (timer st) - lastLogTime st \<ge> 600
         then GetElapsedSeconds (timer st) else lastLogTime st)
   \<and> (lastLogTime st = 0 \<longrightarrow>
        fst (run_with_reads bus placeholder (map (\<lambda>k. 60 * of_nat k) [0..<121]) st)
          = map (\<lambda>k. 600 * of_nat k) [1..<13])
   \<and> interval_test_loop 120 (\<lparr>m_tickCount = 0\<rparr>, 0, 0) = (\<lparr>m_tickCount = 7200\<rparr>, 7200, 12)"
proof -
  have 1: "(g_sampleCount (main_iteration bus placeholder st) \<noteq> g_sampleCount st)
      = (GetElapsedSeconds (timer st) - lastLogTime st \<ge> 600)"
    by (simp add: main_iteration_fields)
  have 2: "\<not> GetElapsedSeconds (timer st) - lastLogTime st \<ge> 600 \<longrightarrow>
        main_iteration bus placeholder st = st"
    by (simp add: main_iteration_def Let_def)
  have 3: "lastLogTime (main_iteration bus placeholder st) =
        (if GetElapsedSeconds (timer st) - lastLogTime st \<ge> 600
         then GetElapsedSeconds (timer st) else lastLogTime st)"
    by (rule main_iteration_fields)
  have 4: "lastLogTime st = 0 \<longrightarrow>
        fst (run_with_reads bus placeholder (map (\<lambda>k. 60 * of_nat k) [0..<121]) st)
          = map (\<lambda>k. 600 * of_nat k) [1..<13]"
    unfolding run_with_reads_triggers using reads_eval by simp
  show ?thesis
    by (intro conjI 1 2 3 4 test_loop_eval)
qed

text \<open>
  The log cycle of \<^verbatim>\<open>main\<close> also advances the simulated timer by 600 seconds. Under a
  harness that adds 60 seconds to that same timer before every iteration, the reads are
  therefore not 60 seconds apart once a cycle has run: the cycles run at 600, 1260, 1920,
  \<dots>, eleven of them up to 7200. The twelve evenly spaced triggers above belong to a time
  source whose reads are 60 seconds apart.
\<close>

lemma main_iteration_timer:
  "m_tickCount (timer (main_iteration bus ph st)) =
     (if GetElapsedSeconds (timer st) - lastLogTime st \<ge> 600 then m_tickCount (timer st) + 600
      else m_tickCount (timer st))"
  by (simp add: main_iteration_def Let_def log_cycle_fields AdvanceTime_def)

lemma run_with_ticks_triggers:
  "fst (run_with_ticks bus ph d n st) =
     ticked_trigger_times d n (m_tickCount (timer st), lastLogTime st)"
proof (induction n arbitrary: st)
  case 0
  show ?case by simp
next
  case (Suc n)
  let ?st0 = "st\<lparr>timer := AdvanceTime d (timer st)\<rparr>"
  let ?st1 = "main_iteration bus ph ?st0"
  let ?t = "m_tickCount (timer st) + d"
  have g: "GetElapsedSeconds (AdvanceTime d (timer st)) = ?t"
    by (simp add: GetElapsedSeconds_def AdvanceTime_def)
  have l: "lastLogTime ?st1 = (if ?t - lastLogTime st \<ge> 600 then ?t else lastLogTime st)"
    by (simp add: main_iteration_fields g)
  have k: "m_tickCount (timer ?st1) = (if ?t - lastLogTime st \<ge> 600 then ?t + 600 else ?t)"
    by (simp add: main_iteration_timer g) (simp add: AdvanceTime_def)
  have c: "(g_sampleCount ?st1 \<noteq> g_sampleCount ?st0) = (?t - lastLogTime st \<ge> 600)"
    by (simp add: main_iteration_fields g)
  have "fst (run_with_ticks bus ph d (Suc n) st) =
      (if g_sampleCount ?st1 \<noteq> g_sampleCount ?st0 then [GetElapsedSeconds (timer ?st0)] else [])
        @ fst (run_with_ticks bus ph d n ?st1)"
    by (simp add: Let_def split: prod.splits)
  also have "\<dots> = (if ?t - lastLogTime st \<ge> 600 then [?t] else [])
        @ ticked_trigger_times d n (m_tickCount (timer ?st1), lastLogTime ?st1)"
    unfolding c Suc.IH by (simp add: g)
  also have "\<dots> = ticked_trigger_times d (Suc n) (m_tickCount (timer st), lastLogTime st)"
    unfolding l k by (simp add: Let_def)
  finally show ?case .
qed

lemma ticked_eval:
  "ticked_trigger_times 60 20 (0, 0) =
     [600, 1260, 1920, 2580, 3240, 3900, 4560, 5220, 5880, 6540, 7200]"
  by code_simp

lemma main_iteration_under_ticks:
  "fst (run_with_ticks bus ph 60 20 (main_start bus b0)) =
     [600, 1260, 1920, 2580, 3240, 3900, 4560, 5220, 5880, 6540, 7200]"
  unfolding run_with_ticks_triggers main_start_fields
  by (simp only: MockTimer.simps ticked_eval)

section \<open>The simulated bus\<close>

text \<open>
  \<^const>\<open>MockI2C\<close> in closed form. A zero-length write to the EEPROM is never acknowledged: a
  busy device answers \<open>Nack\<close>, and an idle one answers \<open>Nack\<close> because the probe is shorter than
  the two address bytes. So after a data write the poll of \<^const>\<open>WaitForWriteComplete\<close> runs
  through all of its attempts; the first five end the simulated write cycle.
\<close>

lemma MockI2C_probe_Nack: "fst (Write MockI2C 0x50 [] e) = Nack"
  by (simp add: MockI2C_def MockEEPROM_Write_def)

lemma MockI2C_probe_idle:
  "\<not> m_writeInProgress e \<Longrightarrow> Write MockI2C 0x50 [] e = (Nack, e)"
  by (simp add: MockI2C_def MockEEPROM_Write_def)

lemma MockI2C_poll_idle:
  assumes "\<not> m_writeInProgress e"
  shows "WaitForWriteComplete_from MockI2C 0x50 attempt e = e"
proof (induction "100 - attempt" arbitrary: attempt)
  case 0
  then show ?case
    by (simp add: WaitForWriteComplete_from.simps)
next
  case (Suc n)
  then have "attempt < 100" and "n = 100 - (attempt + 1)"
    by simp_all
  then show ?case
    using Suc.hyps(1) [of "attempt + 1"] assms
    by (simp add: WaitForWriteComplete_from.simps [of _ _ attempt] MockI2C_probe_idle)
qed

lemma MockI2C_probe_busy:
  "m_writeInProgress e \<Longrightarrow> Write MockI2C 0x50 [] e = (Nack, write_cycle_tick e)"
  by (simp add: MockI2C_def MockEEPROM_Write_def)

lemma MockI2C_poll_after_write:
  assumes "m_writeInProgress e" "m_writeCycleCount e = 0"
  shows "WaitForWriteComplete MockI2C 0x50 e = e\<lparr>m_writeInProgress := False\<rparr>"
proof -
  let ?t = write_cycle_tick
  have b1: "m_writeInProgress (?t e)" "m_writeCycleCount (?t e) = 1"
    using assms by (simp_all add: write_cycle_tick_def Let_def word_le_nat_alt)
  have b2: "m_writeInProgress (?t (?t e))" "m_writeCycleCount (?t (?t e)) = 2"
    using b1 by (simp_all add: write_cycle_tick_def Let_def word_le_nat_alt)
  have b3: "m_writeInProgress (?t (?t (?t e)))" "m_writeCycleCount (?t (?t (?t e))) = 3"
    using b2 by (simp_all add: write_cycle_tick_def Let_def word_le_nat_alt)
  have b4: "m_writeInProgress (?t (?t (?t (?t e))))" "m_writeCycleCount (?t (?t (?t (?t e)))) = 4"
    using b3 by (simp_all add: write_cycle_tick_def Let_def word_le_nat_alt)
  have b5: "?t (?t (?t (?t (?t e)))) = e\<lparr>m_writeInProgress := False\<rparr>"
    using b4 assms
    by (simp add: write_cycle_tick_def Let_def word_le_nat_alt)
  have idle: "\<not> m_writeInProgress (e\<lparr>m_writeInProgress := False\<rparr>)"
    by simp
  show ?thesis
    unfolding WaitForWriteComplete_def
    apply (subst WaitForWriteComplete_from.simps, simp add: MockI2C_probe_busy assms)
    apply (subst WaitForWriteComplete_from.simps, simp add: MockI2C_probe_busy b1)
    apply (subst WaitForWriteComplete_from.simps, simp add: MockI2C_probe_busy b2)
    apply (subst WaitForWriteComplete_from.simps, simp add: MockI2C_probe_busy b3)
    apply (subst WaitForWriteComplete_from.simps, simp add: MockI2C_probe_busy b4 b5)
    apply (rule MockI2C_poll_idle [OF idle])
    done
qed

lemma be16_address:
  "(word_of_int (push_bit 8 (uint (ucast (drop_bit 8 a) :: u8)) OR uint (ucast a :: u8)) :: u16) = a"
  for a :: u16
  by (rule bit_word_eqI) (auto simp: bit_simps)

lemma MockI2C_Write_sample:
  assumes "\<not> m_writeInProgress e" "unat a + 2 \<le> 32768"
  shows "Write MockI2C 0x50 [ucast (drop_bit 8 a), ucast a, b2, b3] e =
     (OK, e\<lparr> m_memory := (m_memory e)(unat a := b2, unat a + 1 := b3),
             m_writeInProgress := True, m_writeCycleCount := 0, m_writeAddress := a \<rparr>)"
  using assms
  by (simp add: MockI2C_def MockEEPROM_Write_def be16_address store_bytes_def Let_def)

lemma MockI2C_LogData:
  assumes "\<not> m_writeInProgress e" "unat a + 2 \<le> 32768"
    and "\<not> (unat a div 64 \<noteq> (unat a + 2) div 64 \<and> unat a + 2 < 32768)"
  shows "LogData MockI2C 0x50 a temp e =
     (True, e\<lparr> m_memory := (m_memory e)
                 (unat a := ucast (drop_bit 8 (EncodeTemperature temp)),
                  unat a + 1 := ucast (EncodeTemperature temp)),
               m_writeCycleCount := 0, m_writeAddress := a \<rparr>)"
  using assms
  by (simp add: LogData_unfold LogData_payload_bytes MockI2C_Write_sample MockI2C_poll_after_write)

lemma MockI2C_WriteRead_sample:
  fixes a :: u16
  assumes "\<not> m_writeInProgress e" "unat a + 2 \<le> 32768"
  shows "WriteRead MockI2C 0x50 [ucast (drop_bit 8 a), ucast a] [0, 0] e =
     (OK, [m_memory e (unat a), m_memory e (unat a + 1)], e)"
  using assms
  by (simp add: MockI2C_def MockEEPROM_Read_def be16_address Let_def)

lemma MockI2C_ReadData:
  fixes a :: u16
  assumes "\<not> m_writeInProgress e" "unat a < 32767"
  shows "ReadData MockI2C 0x50 a e =
     (real_of_int (be16_signed (m_memory e (unat a)) (m_memory e (unat a + 1))) / 16, e)"
  using assms
  by (simp add: ReadData_unfold MockI2C_WriteRead_sample)

lemma uint_hi_lo:
  "256 * uint (ucast (drop_bit 8 w) :: u8) + uint (ucast w :: u8) = uint w"
  for w :: i16
proof -
  have "push_bit 8 (uint (ucast (drop_bit 8 w) :: u8)) OR uint (ucast w :: u8) = uint w"
    by (rule bit_eqI) (auto simp: bit_simps dest: bit_imp_le_length)
  then show ?thesis
    by (simp add: be16_int)
qed

lemma be16_signed_bytes:
  "be16_signed (ucast (drop_bit 8 w)) (ucast w) = sint w"
  for w :: i16
proof -
  have "sint (word_of_int (uint w) :: i16) = (if uint w < 32768 then uint w else uint w - 65536)"
    using uint_bounded [of w] by (intro sint_i16_of_int) simp_all
  then show ?thesis
    by (simp add: be16_signed_def uint_hi_lo Let_def)
qed

text \<open>Store then load on the simulated bus returns the decoded encoding.\<close>

lemma MockI2C_round_trip:
  fixes a :: u16
  assumes "\<not> m_writeInProgress e" "unat a < 32767"
    and "\<not> (unat a div 64 \<noteq> (unat a + 2) div 64 \<and> unat a + 2 < 32768)"
  shows "fst (ReadData MockI2C 0x50 a (snd (LogData MockI2C 0x50 a temp e))) =
           DecodeTemperature (EncodeTemperature temp)"
  using assms
  by (simp add: MockI2C_LogData MockI2C_ReadData be16_signed_bytes DecodeTemperature_def)

text \<open>
  In \<^verbatim>\<open>main\<close> the only call that moves the simulated timer is \<^verbatim>\<open>timer.AdvanceTime(600)\<close>
  inside the log cycle. Started at time 0 with nothing else advancing the timer, the loop
  therefore never runs a log cycle and never exits. The results about log cycles below are
  about iterations in which the time source has moved.
\<close>

lemma main_iteration_idle:
  "GetElapsedSeconds (timer st) - lastLogTime st < 600 \<Longrightarrow> main_iteration bus ph st = st"
  by (simp add: main_iteration_def Let_def)

lemma main_loop_waits_forever:
  "main_loop fuel MockI2C ph (main_start MockI2C MockEEPROM_new) = None"
proof -
  have idle: "main_iteration MockI2C ph (main_start MockI2C MockEEPROM_new) =
      main_start MockI2C MockEEPROM_new"
    by (rule main_iteration_idle) (simp add: main_start_fields GetElapsedSeconds_def)
  show ?thesis
    by (induction fuel) (simp_all add: idle main_start_fields)
qed

section \<open>The results at concrete inputs on the simulated bus\<close>

lemmas mock_defs = MockI2C_def MockEEPROM_Write_def MockEEPROM_Read_def MockEEPROM_new_def
  write_cycle_tick_def store_bytes_def

lemmas codec_defs = EncodeTemperature_def float_to_int16_def LogData_payload_def

lemma payload_22_5: "LogData_payload 0 (EncodeTemperature 22.5) = [0, 0, 0x01, 0x68]"
  by (simp add: codec_defs)

lemma MockI2C_accepts_22_5:
  "fst (Write MockI2C 0x50 (LogData_payload 0 (EncodeTemperature 22.5)) MockEEPROM_new) = OK"
  unfolding payload_22_5 by (simp add: mock_defs)

theorem LogData_success_despite_poll_witness:
  "unat (0 :: u16) + 2 \<le> 32768
   \<and> fst (Write MockI2C 0x50 (LogData_payload 0 (EncodeTemperature 22.5)) MockEEPROM_new) = OK
   \<and> (\<forall>s'. fst (Write MockI2C 0x50 [] s') \<noteq> OK)
   \<and> fst (LogData MockI2C 0x50 0 22.5 MockEEPROM_new)
   \<and> snd (snd (LogData (recording MockI2C) 0x50 0 22.5 (MockEEPROM_new, []))) =
        WriteCall 0x50 [0, 0, 0x01, 0x68] # replicate 100 (WriteCall 0x50 [])"
proof -
  have h1: "unat (0 :: u16) + 2 \<le> 32768"
    by simp
  have h2: "\<not> (unat (0 :: u16) div 64 \<noteq> (unat (0 :: u16) + 2) div 64 \<and> unat (0 :: u16) + 2 < 32768)"
    by simp
  have h4: "\<forall>s'. fst (Write MockI2C 0x50 [] s') \<noteq> OK"
    by (simp add: MockI2C_probe_Nack)
  note T = LogData_success_despite_poll [OF h1 h2 MockI2C_accepts_22_5]
  have c1: "fst (LogData MockI2C 0x50 0 22.5 MockEEPROM_new)"
    using T by (rule conjunct1)
  have c2: "snd (snd (LogData (recording MockI2C) 0x50 0 22.5 (MockEEPROM_new, []))) =
        WriteCall 0x50 (LogData_payload 0 (EncodeTemperature 22.5)) # replicate 100 (WriteCall 0x50 [])"
    using T [THEN conjunct2, THEN mp, OF h4] by (rule conjunct2)
  show ?thesis
    by (intro conjI h1 MockI2C_accepts_22_5 h4 c1 c2 [unfolded payload_22_5])
qed

lemma MockEEPROM_new_idle: "\<not> m_writeInProgress MockEEPROM_new" "m_writeCycleCount MockEEPROM_new = 0"
  by (simp_all add: MockEEPROM_new_def)

theorem LogData_capacity_check_witness:
  "32768 < unat (65535 :: u16) + 2
   \<and> LogData (recording MockI2C) 0x50 65535 25 (MockEEPROM_new, []) = (False, (MockEEPROM_new, []))
   \<and> LogData (recording MockI2C) 0x50 32767 25 (MockEEPROM_new, []) = (False, (MockEEPROM_new, []))
   \<and> fst (Write MockI2C 0x50 (LogData_payload 32766 (EncodeTemperature 25)) MockEEPROM_new) = OK
   \<and> fst (LogData MockI2C 0x50 32766 25 MockEEPROM_new)"
proof -
  have h: "32768 < unat (65535 :: u16) + 2"
    by simp
  have w: "fst (Write MockI2C 0x50 (LogData_payload 32766 (EncodeTemperature 25)) MockEEPROM_new) = OK"
    unfolding LogData_payload_bytes
    by (subst MockI2C_Write_sample) (simp_all add: MockEEPROM_new_idle)
  note T = LogData_capacity_check [where bus = MockI2C and dev = "0x50" and memAddr = 65535
      and temp = 25 and s = MockEEPROM_new and calls = "[]"]
  have c1: "LogData (recording MockI2C) 0x50 65535 25 (MockEEPROM_new, []) = (False, (MockEEPROM_new, []))"
    using T [THEN conjunct1, THEN mp, OF h] .
  have c2: "LogData (recording MockI2C) 0x50 32767 25 (MockEEPROM_new, []) = (False, (MockEEPROM_new, []))"
    using T [THEN conjunct2, THEN conjunct1] .
  have c3: "fst (LogData MockI2C 0x50 32766 25 MockEEPROM_new)"
    using T [THEN conjunct2, THEN conjunct2, THEN mp, OF w] .
  show ?thesis
    by (intro conjI h c1 c2 w c3)
qed

theorem LogData_page_check_witness:
  "unat (62 :: u16) + 2 \<le> 32768
   \<and> (unat (62 :: u16) div 64 \<noteq> (unat (62 :: u16) + 2) div 64 \<and> unat (62 :: u16) + 2 < 32768)
   \<and> LogData (recording MockI2C) 0x50 62 25 (MockEEPROM_new, []) = (False, (MockEEPROM_new, []))
   \<and> snd (snd (LogData (recording MockI2C) 0x50 32766 25 (MockEEPROM_new, []))) \<noteq> []"
proof -
  have h: "unat (62 :: u16) + 2 \<le> 32768"
    by simp
  have x: "unat (62 :: u16) div 64 \<noteq> (unat (62 :: u16) + 2) div 64 \<and> unat (62 :: u16) + 2 < 32768"
    by simp
  note T = LogData_page_check [OF h, where bus = MockI2C and dev = "0x50" and temp = 25
      and s = MockEEPROM_new]
  have c1: "LogData (recording MockI2C) 0x50 62 25 (MockEEPROM_new, []) = (False, (MockEEPROM_new, []))"
    using T [THEN conjunct1] x by (rule iffD2)
  have c2: "snd (snd (LogData (recording MockI2C) 0x50 32766 25 (MockEEPROM_new, []))) \<noteq> []"
    using T [THEN conjunct2, THEN conjunct2] .
  show ?thesis
    by (intro conjI h x [THEN conjunct1] x [THEN conjunct2] c1 c2)
qed

theorem LogData_transmits_payload_witness:
  "unat (0x1234 :: u16) + 2 \<le> 32768
   \<and> \<not> (unat (0x1234 :: u16) div 64 \<noteq> (unat (0x1234 :: u16) + 2) div 64
          \<and> unat (0x1234 :: u16) + 2 < 32768)
   \<and> (\<exists>k\<le>100. snd (snd (LogData (recording MockI2C) 0x50 0x1234 (- 999) (MockEEPROM_new, []))) =
          WriteCall 0x50 [0x12, 0x34, 0xC1, 0x90] # replicate k (WriteCall 0x50 []))"
proof -
  have h1: "unat (0x1234 :: u16) + 2 \<le> 32768"
    by simp
  have h2: "\<not> (unat (0x1234 :: u16) div 64 \<noteq> (unat (0x1234 :: u16) + 2) div 64
          \<and> unat (0x1234 :: u16) + 2 < 32768)"
    by simp
  have e: "EncodeTemperature (- 999) = 0xC190"
    by (simp add: EncodeTemperature_def float_to_int16_def)
  have b: "[ucast (drop_bit 8 (0x1234 :: u16)), ucast (0x1234 :: u16),
            ucast (drop_bit 8 (0xC190 :: i16)), ucast (0xC190 :: i16)] = [0x12, 0x34, 0xC1, 0x90 :: u8]"
    by (simp add: drop_bit_eq_div)
  from LogData_transmits_payload [OF h1 h2, where bus = MockI2C and dev = "0x50" and temp = "- 999"
      and s = MockEEPROM_new]
  have "\<exists>k\<le>100. snd (snd (LogData (recording MockI2C) 0x50 0x1234 (- 999) (MockEEPROM_new, []))) =
          WriteCall 0x50 [0x12, 0x34, 0xC1, 0x90] # replicate k (WriteCall 0x50 [])"
    unfolding e b .
  with h1 h2 show ?thesis
    by (intro conjI)
qed

lemma payload_sentinel: "LogData_payload 0 (EncodeTemperature (- 999)) = [0, 0, 0xC1, 0x90]"
  by (simp add: codec_defs)

lemma MockI2C_stored_22_5:
  "LogData MockI2C 0x50 0 22.5 MockEEPROM_new =
     (True, MockEEPROM_new\<lparr>m_memory := (\<lambda>i. 0xFF)(0 := 0x01, 1 := 0x68)\<rparr>)"
proof -
  have b: "ucast (drop_bit 8 (EncodeTemperature 22.5)) = (0x01 :: u8)"
    "ucast (EncodeTemperature 22.5) = (0x68 :: u8)"
    using payload_22_5 unfolding LogData_payload_bytes by simp_all
  have "LogData MockI2C 0x50 0 22.5 MockEEPROM_new =
     (True, MockEEPROM_new\<lparr> m_memory := (m_memory MockEEPROM_new)
                 (unat (0 :: u16) := ucast (drop_bit 8 (EncodeTemperature 22.5)),
                  unat (0 :: u16) + 1 := ucast (EncodeTemperature 22.5)),
               m_writeCycleCount := 0, m_writeAddress := 0 \<rparr>)"
    by (rule MockI2C_LogData) (simp_all add: MockEEPROM_new_idle)
  then show ?thesis
    unfolding b by (simp add: MockEEPROM_new_def)
qed

lemma MockI2C_stored_sentinel:
  "LogData MockI2C 0x50 0 (- 999) MockEEPROM_new =
     (True, MockEEPROM_new\<lparr>m_memory := (\<lambda>i. 0xFF)(0 := 0xC1, 1 := 0x90)\<rparr>)"
proof -
  have b: "ucast (drop_bit 8 (EncodeTemperature (- 999))) = (0xC1 :: u8)"
    "ucast (EncodeTemperature (- 999)) = (0x90 :: u8)"
    using payload_sentinel unfolding LogData_payload_bytes by simp_all
  have "LogData MockI2C 0x50 0 (- 999) MockEEPROM_new =
     (True, MockEEPROM_new\<lparr> m_memory := (m_memory MockEEPROM_new)
                 (unat (0 :: u16) := ucast (drop_bit 8 (EncodeTemperature (- 999))),
                  unat (0 :: u16) + 1 := ucast (EncodeTemperature (- 999))),
               m_writeCycleCount := 0, m_writeAddress := 0 \<rparr>)"
    by (rule MockI2C_LogData) (simp_all add: MockEEPROM_new_idle)
  then show ?thesis
    unfolding b by (simp add: MockEEPROM_new_def)
qed

lemma MockI2C_read_stored:
  "WriteRead MockI2C 0x50 [0, 0] [0, 0] (MockEEPROM_new\<lparr>m_memory := (\<lambda>i. 0xFF)(0 := b0, 1 := b1)\<rparr>) =
     (OK, [b0, b1], MockEEPROM_new\<lparr>m_memory := (\<lambda>i. 0xFF)(0 := b0, 1 := b1)\<rparr>)"
  using MockI2C_WriteRead_sample [of "MockEEPROM_new\<lparr>m_memory := (\<lambda>i. 0xFF)(0 := b0, 1 := b1)\<rparr>" 0]
  by (simp add: MockEEPROM_new_idle)

lemma MockI2C_busy_read:
  "fst (WriteRead MockI2C 0x50 [0, 0] [0, 0] (MockEEPROM_new\<lparr>m_writeInProgress := True\<rparr>)) = Nack"
  by (simp add: MockI2C_def MockEEPROM_Read_def)

theorem ReadData_sentinel_witness:
  "32767 \<le> unat (40000 :: u16)
   \<and> ReadData (recording MockI2C) 0x50 40000 (MockEEPROM_new, []) = (- 999, (MockEEPROM_new, []))
   \<and> ReadData (recording MockI2C) 0x50 32767 (MockEEPROM_new, []) = (- 999, (MockEEPROM_new, []))
   \<and> fst (WriteRead MockI2C 0x50 [0, 0] [0, 0] (MockEEPROM_new\<lparr>m_writeInProgress := True\<rparr>)) = Nack
   \<and> fst (ReadData MockI2C 0x50 0 (MockEEPROM_new\<lparr>m_writeInProgress := True\<rparr>)) = - 999
   \<and> WriteRead MockI2C 0x50 [0, 0] [0, 0] (snd (LogData MockI2C 0x50 0 22.5 MockEEPROM_new)) =
        (OK, [0x01, 0x68], snd (LogData MockI2C 0x50 0 22.5 MockEEPROM_new))
   \<and> ReadData MockI2C 0x50 0 (snd (LogData MockI2C 0x50 0 22.5 MockEEPROM_new)) =
        (22.5, snd (LogData MockI2C 0x50 0 22.5 MockEEPROM_new))"
proof -
  let ?busy = "MockEEPROM_new\<lparr>m_writeInProgress := True\<rparr>"
  let ?stored = "snd (LogData MockI2C 0x50 0 22.5 MockEEPROM_new)"
  have h: "32767 \<le> unat (40000 :: u16)"
    by simp
  have z: "[ucast (drop_bit 8 (0 :: u16)), ucast (0 :: u16)] = [0, 0 :: u8]"
    by simp
  have r: "WriteRead MockI2C 0x50 [0, 0] [0, 0] ?stored = (OK, [0x01, 0x68], ?stored)"
    unfolding MockI2C_stored_22_5 snd_conv by (rule MockI2C_read_stored)
  note T1 = ReadData_sentinel [where bus = MockI2C and dev = "0x50" and memAddr = 40000
      and s = MockEEPROM_new and calls = "[]"]
  note T2 = ReadData_sentinel [where bus = MockI2C and dev = "0x50" and memAddr = 0 and s = ?busy]
  note T3 = ReadData_sentinel [where bus = MockI2C and dev = "0x50" and memAddr = 0 and s = ?stored
      and ?d0.0 = "0x01" and ?d1.0 = "0x68" and ?s1.0 = ?stored]
  have c1: "ReadData (recording MockI2C) 0x50 40000 (MockEEPROM_new, []) = (- 999, (MockEEPROM_new, []))"
    using T1 [THEN conjunct1, THEN mp, OF h] .
  have c2: "ReadData (recording MockI2C) 0x50 32767 (MockEEPROM_new, []) = (- 999, (MockEEPROM_new, []))"
    using T1 [THEN conjunct2, THEN conjunct1] .
  have c3: "fst (ReadData MockI2C 0x50 0 ?busy) = - 999"
    using T2 [THEN conjunct2, THEN conjunct2, THEN conjunct1] MockI2C_busy_read
    by (simp add: z)
  have "ReadData MockI2C 0x50 0 ?stored = (real_of_int (be16_signed 0x01 0x68) / 16, ?stored)"
    using T3 [THEN conjunct2, THEN conjunct2, THEN conjunct2] r
    by (simp add: z)
  then have c4: "ReadData MockI2C 0x50 0 ?stored = (22.5, ?stored)"
    by (simp add: be16_signed_def)
  show ?thesis
    by (intro conjI h c1 c2 MockI2C_busy_read c3 r c4)
qed

theorem ReadData_stored_sentinel_witness:
  "unat (0 :: u16) < 32767
   \<and> fst (LogData MockI2C 0x50 0 (- 999) MockEEPROM_new)
   \<and> WriteRead MockI2C 0x50 [0, 0] [0, 0] (snd (LogData MockI2C 0x50 0 (- 999) MockEEPROM_new)) =
        (OK, [0xC1, 0x90], snd (LogData MockI2C 0x50 0 (- 999) MockEEPROM_new))
   \<and> ReadData MockI2C 0x50 0 (snd (LogData MockI2C 0x50 0 (- 999) MockEEPROM_new)) =
        (- 999, snd (LogData MockI2C 0x50 0 (- 999) MockEEPROM_new))"
proof -
  let ?stored = "snd (LogData MockI2C 0x50 0 (- 999) MockEEPROM_new)"
  have h: "unat (0 :: u16) < 32767"
    by simp
  have w: "fst (LogData MockI2C 0x50 0 (- 999) MockEEPROM_new)"
    unfolding MockI2C_stored_sentinel by simp
  have r: "WriteRead MockI2C 0x50 [0, 0] [0, 0] ?stored = (OK, [0xC1, 0x90], ?stored)"
    unfolding MockI2C_stored_sentinel snd_conv by (rule MockI2C_read_stored)
  have r': "WriteRead MockI2C 0x50 [ucast (drop_bit 8 (0 :: u16)), ucast (0 :: u16)] [0, 0] ?stored =
      (OK, [0xC1, 0x90], ?stored)"
    using r by simp
  have c: "ReadData MockI2C 0x50 0 ?stored = (- 999, ?stored)"
    using ReadData_stored_sentinel [OF h r'] by (rule conjunct2)
  show ?thesis
    by (intro conjI h w r c)
qed

lemma twelve_times:
  "map (\<lambda>k. 600 * of_nat k) [1..<13] =
     [600, 1200, 1800, 2400, 3000, 3600, 4200, 4800, 5400, 6000, 6600, 7200 :: u32]"
  by code_simp

theorem interval_trigger_witness:
  "\<not> GetElapsedSeconds (timer (main_start MockI2C MockEEPROM_new))
        - lastLogTime (main_start MockI2C MockEEPROM_new) \<ge> 600
   \<and> main_iteration MockI2C (\<lambda>n. 20 + real (unat n) / 100) (main_start MockI2C MockEEPROM_new)
        = main_start MockI2C MockEEPROM_new
   \<and> lastLogTime (main_start MockI2C MockEEPROM_new) = 0
   \<and> fst (run_with_reads MockI2C (\<lambda>n. 20 + real (unat n) / 100)
          (map (\<lambda>k. 60 * of_nat k) [0..<121]) (main_start MockI2C MockEEPROM_new))
        = [600, 1200, 1800, 2400, 3000, 3600, 4200, 4800, 5400, 6000, 6600, 7200]"
proof -
  let ?st = "main_start MockI2C MockEEPROM_new"
  let ?ph = "\<lambda>n :: u32. 20 + real (unat n) / 100"
  have h1: "\<not> GetElapsedSeconds (timer ?st) - lastLogTime ?st \<ge> 600"
    by (simp add: main_start_fields GetElapsedSeconds_def)
  have h2: "lastLogTime ?st = 0"
    by (rule main_start_fields)
  note T = interval_trigger [where bus = MockI2C and placeholder = ?ph and st = ?st]
  have c1: "main_iteration MockI2C ?ph ?st = ?st"
    using T [THEN conjunct2, THEN conjunct1, THEN mp, OF h1] .
  have c2: "fst (run_with_reads MockI2C ?ph (map (\<lambda>k. 60 * of_nat k) [0..<121]) ?st)
        = [600, 1200, 1800, 2400, 3000, 3600, 4200, 4800, 5400, 6000, 6600, 7200]"
    using T [THEN conjunct2, THEN conjunct2, THEN conjunct2, THEN conjunct1, THEN mp, OF h2]
    unfolding twelve_times .
  show ?thesis
    by (intro conjI h1 c1 h2 c2)
qed

lemma MockI2C_sensor:
  "Write MockI2C 0x48 d e = (Nack, e)"
  "WriteRead MockI2C 0x48 tx rx e = (Nack, replicate (length rx) 0, e)"
  by (simp_all add: MockI2C_def)

lemma MockI2C_busy_Write:
  "m_writeInProgress e \<Longrightarrow> Write MockI2C 0x50 d e = (Nack, write_cycle_tick e)"
  by (simp add: MockI2C_def MockEEPROM_Write_def)

lemma main_start_MockI2C:
  "i2cBus (main_start MockI2C b0) = b0"
  "g_initSuccess (main_start MockI2C b0) = False"
  by (simp_all add: main_start_def Init_def WriteConfig_def MockI2C_sensor)

lemma first_cycle_MockI2C:
  "g_writeSuccess (main_iteration MockI2C ph ((main_start MockI2C b0)\<lparr>timer := \<lparr>m_tickCount = 600\<rparr>\<rparr>))
     = fst (LogData MockI2C 0x50 0 (ph 0) b0)"
  by (simp add: main_iteration_def log_cycle_def GetElapsedSeconds_def main_start_fields
      main_start_MockI2C ReadTemperature_def MockI2C_sensor Let_def split: prod.splits)

theorem cursor_invariant_witness:
  "reachable MockI2C (\<lambda>n. 20 + real (unat n) / 100)
     ((main_start MockI2C MockEEPROM_new)\<lparr>timer := \<lparr>m_tickCount = 600\<rparr>\<rparr>)
   \<and> g_writeSuccess (main_iteration MockI2C (\<lambda>n. 20 + real (unat n) / 100)
        ((main_start MockI2C MockEEPROM_new)\<lparr>timer := \<lparr>m_tickCount = 600\<rparr>\<rparr>))
   \<and> unat (eepromAddress (main_iteration MockI2C (\<lambda>n. 20 + real (unat n) / 100)
        ((main_start MockI2C MockEEPROM_new)\<lparr>timer := \<lparr>m_tickCount = 600\<rparr>\<rparr>))) = 2
   \<and> reachable MockI2C (\<lambda>n. 20 + real (unat n) / 100)
     ((main_start MockI2C (MockEEPROM_new\<lparr>m_writeInProgress := True\<rparr>))\<lparr>timer := \<lparr>m_tickCount = 600\<rparr>\<rparr>)
   \<and> \<not> g_writeSuccess (main_iteration MockI2C (\<lambda>n. 20 + real (unat n) / 100)
        ((main_start MockI2C (MockEEPROM_new\<lparr>m_writeInProgress := True\<rparr>))\<lparr>timer := \<lparr>m_tickCount = 600\<rparr>\<rparr>))
   \<and> unat (eepromAddress (main_iteration MockI2C (\<lambda>n. 20 + real (unat n) / 100)
        ((main_start MockI2C (MockEEPROM_new\<lparr>m_writeInProgress := True\<rparr>))\<lparr>timer := \<lparr>m_tickCount = 600\<rparr>\<rparr>))) = 2"
proof -
  let ?ph = "\<lambda>n :: u32. 20 + real (unat n) / 100"
  let ?busy = "MockEEPROM_new\<lparr>m_writeInProgress := True\<rparr>"
  let ?a = "(main_start MockI2C MockEEPROM_new)\<lparr>timer := \<lparr>m_tickCount = 600\<rparr>\<rparr>"
  let ?b = "(main_start MockI2C ?busy)\<lparr>timer := \<lparr>m_tickCount = 600\<rparr>\<rparr>"
  have ra: "reachable MockI2C ?ph ?a"
    by (intro reachable_time reachable_start)
  have rb: "reachable MockI2C ?ph ?b"
    by (intro reachable_time reachable_start)
  have ta: "GetElapsedSeconds (timer ?a) - lastLogTime ?a \<ge> 600"
    by (simp add: GetElapsedSeconds_def main_start_fields)
  have tb: "GetElapsedSeconds (timer ?b) - lastLogTime ?b \<ge> 600"
    by (simp add: GetElapsedSeconds_def main_start_fields)
  have wa: "g_writeSuccess (main_iteration MockI2C ?ph ?a)"
    unfolding first_cycle_MockI2C
    by (subst MockI2C_LogData) (simp_all add: MockEEPROM_new_idle)
  have wb: "\<not> g_writeSuccess (main_iteration MockI2C ?ph ?b)"
    unfolding first_cycle_MockI2C
    by (simp add: LogData_result MockI2C_busy_Write)
  have ca: "unat (eepromAddress (main_iteration MockI2C ?ph ?a)) = 2"
    using cursor_invariant [OF ra, THEN conjunct2, THEN conjunct2, THEN mp, OF ta]
    by (simp add: main_start_fields)
  have cb: "unat (eepromAddress (main_iteration MockI2C ?ph ?b)) = 2"
    using cursor_invariant [OF rb, THEN conjunct2, THEN conjunct2, THEN mp, OF tb]
    by (simp add: main_start_fields)
  show ?thesis
    by (intro conjI ra wa ca rb wb cb)
qed

end
